theory Spec2Isabelle
  imports Complex_Main
begin

section \<open>Readout analysis: expectation values and the noise-model objective\<close>

text \<open>
  The notebook \<^verbatim>\<open>docs/Readout-Analysis.ipynb\<close> does two computations of its own:
  it turns recorded bitstrings into expectation values \<open>\<langle>Z\<rangle>\<close>, and it builds the
  objective function that a minimiser evaluates when fitting a three-parameter noise
  model. Both are embedded here. Python floats are idealised as \<^typ>\<open>real\<close>; numpy
  arrays of one dimension are lists, and an array of shape (shots, qubits) is a list of
  rows.

  What Python does by raising an exception, or numpy by answering \<open>nan\<close>, is a value of
  the type \<open>failure\<close>; a computation that can fail returns \<open>failure + 'a\<close>.
\<close>

datatype failure =
    ValueError    \<comment> \<open>unpacking, broadcasting and \<^verbatim>\<open>.item()\<close> raise it\<close>
  | NotANumber    \<comment> \<open>the mean of no values\<close>

subsection \<open>Expectation extraction\<close>

text \<open>
  \<^verbatim>\<open>record['z_vals'] = [np.mean((-1)**bitstrings, axis=0).item()
                        for bitstrings in all_bitstrings]\<close>

  \<open>bitstrings\<close> holds one row per shot and one column per measured qubit. The
  expression evaluated for each \<open>bitstrings\<close> is \<open>z_val\<close>.
\<close>

type_synonym bit_array = "nat list list"

definition np_power_neg1 :: "bit_array \<Rightarrow> real list list" where
  "np_power_neg1 bitstrings = map (map (\<lambda>b. (- 1) ^ b)) bitstrings"

text \<open>
  The mean along axis 0 is the mean of every column. Without rows numpy divides by
  zero and answers \<open>nan\<close>.
\<close>

definition np_mean_axis0 :: "real list list \<Rightarrow> failure + real list" where
  "np_mean_axis0 rows =
     (if rows = [] then Inl NotANumber
      else Inr (map (\<lambda>j. sum_list (map (\<lambda>row. row ! j) rows) / real (length rows))
                  [0..<length (hd rows)]))"

text \<open>\<^verbatim>\<open>.item()\<close> converts an array of exactly one element and raises otherwise.\<close>

definition item :: "real list \<Rightarrow> failure + real" where
  "item a = (case a of [v] \<Rightarrow> Inr v | _ \<Rightarrow> Inl ValueError)"

definition z_val :: "bit_array \<Rightarrow> failure + real" where
  "z_val bitstrings =
     (case np_mean_axis0 (np_power_neg1 bitstrings) of
        Inl e \<Rightarrow> Inl e
      | Inr m \<Rightarrow> item m)"

subsection \<open>The circuit\<close>

text \<open>
  \<^verbatim>\<open>qubit = cirq.LineQubit(0)\<close>, and \<^verbatim>\<open>get_circuit(theta)\<close> is the rotation
  \<open>R\<^sub>y(\<theta>)\<close> on that qubit followed by the dummy measurement of it.
\<close>

datatype operation =
    Ry real nat                      \<comment> \<open>\<^verbatim>\<open>cirq.ry(theta).on(qubit)\<close>\<close>
  | DummyMeasurementGate nat "nat list"
      \<comment> \<open>\<^verbatim>\<open>_DummyMeasurementGate(num_qubits=n).on(*qubits)\<close>\<close>

type_synonym circuit = "operation list"

definition qubit :: nat where
  "qubit = 0"

definition dummy_measure :: "nat list \<Rightarrow> operation" where
  "dummy_measure qubits = DummyMeasurementGate (length qubits) qubits"

definition get_circuit :: "real \<Rightarrow> circuit" where
  "get_circuit theta = [Ry theta qubit, dummy_measure [qubit]]"

subsection \<open>The simulator\<close>

text \<open>
  The density-matrix simulator and the noise model belong to an external library. The
  objective function is embedded over any behaviour of theirs: a \<open>backend\<close> says what
  constructing a simulator from a noise model yields, and what \<open>\<langle>Z\<rangle>\<close> the chain
  \<^verbatim>\<open>sim.simulate(circuit)\<close>, \<^verbatim>\<open>op.expectation_from_wavefunction(...)\<close>,
  \<^verbatim>\<open>np.real_if_close(...).item()\<close> extracts for a circuit. Either may raise.
\<close>

datatype noise_model =
  DepolarizingWithDampedReadoutNoiseModel real real real
    \<comment> \<open>\<open>depol_prob\<close>, \<open>decay_prob\<close>, \<open>bitflip_prob\<close>\<close>

record 'sim backend =
  DensityMatrixSimulator :: "noise_model \<Rightarrow> failure + 'sim"
  simulate_z :: "'sim \<Rightarrow> circuit \<Rightarrow> failure + real"

text \<open>
  Modelled from the spec: the response of the external simulator when all noise
  parameters are zero, for which the spec gives the analytic value
  \<open>\<langle>Z\<rangle>(\<theta>) = cos \<theta>\<close> of the rotation circuit. This stand-in describes nothing else:
  it declines every other noise model and every other circuit. It serves to evaluate
  the objective function on concrete inputs.
\<close>

definition noiseless_backend :: "unit backend" where
  "noiseless_backend =
     \<lparr> DensityMatrixSimulator =
         (\<lambda>noise. if noise = DepolarizingWithDampedReadoutNoiseModel 0 0 0
                   then Inr () else Inl ValueError),
       simulate_z =
         (\<lambda>sim c. case c of
                     [Ry theta q, DummyMeasurementGate n qs] \<Rightarrow> Inr (cos theta)
                   | _ \<Rightarrow> Inl ValueError) \<rparr>"

subsection \<open>The objective function\<close>

text \<open>
  \<^verbatim>\<open>get_obj_func(data_expectations)\<close> creates the list \<open>all_results\<close> and returns it
  together with the closure \<open>obj_func\<close>, which reads \<open>data_expectations\<close> and appends
  to \<open>all_results\<close>. The two captured variables are the fields of a record; a call of
  \<open>obj_func\<close> takes the record and returns it updated, so the caller's view of
  \<open>all_results\<close> is the field after the call. The sweep angles \<open>thetas\<close> are a global
  of the notebook, read at each call.
\<close>

record closure =
  data_expectations :: "real list"
  all_results :: "real list list"

definition get_obj_func :: "real list \<Rightarrow> closure" where
  "get_obj_func data = \<lparr> data_expectations = data, all_results = [] \<rparr>"

text \<open>The loop \<^verbatim>\<open>for theta in thetas: ... results.append(...)\<close>.\<close>

fun simulate_sweep :: "'sim backend \<Rightarrow> 'sim \<Rightarrow> real list \<Rightarrow> real list \<Rightarrow> failure + real list" where
  "simulate_sweep B sim [] results = Inr results"
| "simulate_sweep B sim (theta # rest) results =
     (case simulate_z B sim (get_circuit theta) of
        Inl e \<Rightarrow> Inl e
      | Inr true_z_val \<Rightarrow> simulate_sweep B sim rest (results @ [true_z_val]))"

text \<open>
  \<^verbatim>\<open>results - data_expectations\<close> on one-dimensional operands: equal lengths subtract
  elementwise, an operand of length one is broadcast over the other, anything else
  raises.
\<close>

definition np_subtract :: "real list \<Rightarrow> real list \<Rightarrow> failure + real list" where
  "np_subtract a b =
     (if length a = length b then Inr (map2 (-) a b)
      else if length a = 1 then Inr (map (\<lambda>y. hd a - y) b)
      else if length b = 1 then Inr (map (\<lambda>x. x - hd b) a)
      else Inl ValueError)"

definition obj_func ::
  "'sim backend \<Rightarrow> real list \<Rightarrow> closure \<Rightarrow> real list \<Rightarrow> (failure + real) \<times> closure" where
  "obj_func B thetas clo x =
     (case x of
        [depol_prob, decay_prob, readout_prob] \<Rightarrow>
          if depol_prob < 0 \<or> decay_prob < 0 \<or> readout_prob < 0 then (Inr 1000, clo)
          else
            (case DensityMatrixSimulator B
                    (DepolarizingWithDampedReadoutNoiseModel depol_prob decay_prob readout_prob) of
               Inl e \<Rightarrow> (Inl e, clo)
             | Inr sim \<Rightarrow>
                 (case simulate_sweep B sim thetas [] of
                    Inl e \<Rightarrow> (Inl e, clo)
                  | Inr results \<Rightarrow>
                      let clo' = clo\<lparr>all_results := all_results clo @ [results]\<rparr> in
                      (case np_subtract results (data_expectations clo) of
                         Inl e \<Rightarrow> (Inl e, clo')
                       | Inr diff \<Rightarrow> (Inr (sum_list (map abs diff)), clo'))))
      | _ \<Rightarrow> (Inl ValueError, clo))"

subsection \<open>The spec's formulations\<close>

text \<open>
  Two quantities as the specification words them, to be compared with what the code
  computes: the mean of \<open>(-1)\<^sup>b\<^sup>i\<^sup>t\<close> over the shots of one parameter setting, and the
  sum, over the sweep angles, of the absolute differences between simulated and
  observed values.
\<close>

definition mean_over_shots :: "nat list \<Rightarrow> real" where
  "mean_over_shots bits = (\<Sum>bit\<leftarrow>bits. (- 1) ^ bit) / real (length bits)"

definition sum_of_absolute_differences :: "real list \<Rightarrow> real list \<Rightarrow> real" where
  "sum_of_absolute_differences simulated observed =
     (\<Sum>i<length simulated. \<bar>simulated ! i - observed ! i\<bar>)"

section \<open>Properties\<close>

subsection \<open>Auxiliary facts\<close>

lemma obj_func_triple:
  "obj_func B thetas clo [d, c, r] =
     (if d < 0 \<or> c < 0 \<or> r < 0 then (Inr 1000, clo)
      else
        (case DensityMatrixSimulator B (DepolarizingWithDampedReadoutNoiseModel d c r) of
           Inl e \<Rightarrow> (Inl e, clo)
         | Inr sim \<Rightarrow>
             (case simulate_sweep B sim thetas [] of
                Inl e \<Rightarrow> (Inl e, clo)
              | Inr results \<Rightarrow>
                  (case np_subtract results (data_expectations clo) of
                     Inl e \<Rightarrow> (Inl e, clo\<lparr>all_results := all_results clo @ [results]\<rparr>)
                   | Inr diff \<Rightarrow>
                       (Inr (sum_list (map abs diff)),
                        clo\<lparr>all_results := all_results clo @ [results]\<rparr>)))))"
  by (simp add: obj_func_def Let_def split: sum.splits)

text \<open>
  The sweep returns exactly when the simulator returns a value for the circuit of every
  angle, and then its result is the list of these values behind what was there.
\<close>

lemma simulate_sweep_returns:
  "map (\<lambda>theta. simulate_z B sim (get_circuit theta)) thetas = map Inr zs \<Longrightarrow>
     simulate_sweep B sim thetas results = Inr (results @ zs)"
proof (induction thetas arbitrary: zs results)
  case Nil
  then show ?case by simp
next
  case (Cons theta rest)
  then obtain z zs' where zs: "zs = z # zs'" by (cases zs) auto
  with Cons.prems have "simulate_z B sim (get_circuit theta) = Inr z"
    and "map (\<lambda>theta. simulate_z B sim (get_circuit theta)) rest = map Inr zs'"
    by simp_all
  with Cons.IH [of zs' "results @ [z]"] zs show ?case by simp
qed

lemma simulate_sweep_returned:
  "simulate_sweep B sim thetas results = Inr res \<Longrightarrow>
     \<exists>zs. res = results @ zs \<and>
          map (\<lambda>theta. simulate_z B sim (get_circuit theta)) thetas = map Inr zs"
proof (induction thetas arbitrary: results)
  case Nil
  then show ?case by simp
next
  case (Cons theta rest)
  then obtain z where z: "simulate_z B sim (get_circuit theta) = Inr z"
    and rest: "simulate_sweep B sim rest (results @ [z]) = Inr res"
    by (auto split: sum.splits)
  from Cons.IH [OF rest] obtain zs where "res = (results @ [z]) @ zs"
    and "map (\<lambda>theta. simulate_z B sim (get_circuit theta)) rest = map Inr zs"
    by blast
  with z show ?case by (intro exI [of _ "z # zs"]) simp
qed

lemma simulate_sweep_length:
  assumes "simulate_sweep B sim thetas [] = Inr results"
  shows "length results = length thetas"
proof -
  from simulate_sweep_returned [OF assms] obtain zs where "results = zs"
    and "map (\<lambda>theta. simulate_z B sim (get_circuit theta)) thetas = map Inr zs"
    by auto
  then show ?thesis using map_eq_imp_length_eq by fastforce
qed

lemma simulate_sweep_pointwise:
  assumes "\<forall>theta\<in>set thetas. simulate_z B sim (get_circuit theta) = Inr (z theta)"
  shows "simulate_sweep B sim thetas [] = Inr (map z thetas)"
proof -
  from assms
  have "map (\<lambda>theta. simulate_z B sim (get_circuit theta)) thetas = map Inr (map z thetas)"
    by simp
  from simulate_sweep_returns [OF this, of "[]"] show ?thesis by simp
qed

lemma simulate_sweep_raises:
  "theta \<in> set thetas \<Longrightarrow> simulate_z B sim (get_circuit theta) = Inl e \<Longrightarrow>
     \<exists>e'. simulate_sweep B sim thetas results = Inl e'"
proof (induction thetas arbitrary: results)
  case Nil
  then show ?case by simp
next
  case (Cons t rest)
  show ?case
  proof (cases "simulate_z B sim (get_circuit t)")
    case (Inl e0)
    then show ?thesis by simp
  next
    case (Inr z0)
    with Cons.prems have "theta \<in> set rest" by auto
    from Cons.IH [OF this Cons.prems(2), of "results @ [z0]"] Inr show ?thesis by simp
  qed
qed

lemma sum_abs_nonneg: "0 \<le> sum_list (map abs (diff :: real list))"
  by (rule sum_list_nonneg) auto

lemma np_subtract_same_length:
  "length a = length b \<Longrightarrow> np_subtract a b = Inr (map2 (-) a b)"
  by (simp add: np_subtract_def)

lemma l1_as_indexed_sum:
  "length a = length b \<Longrightarrow>
     sum_list (map abs (map2 (-) a b)) = sum_of_absolute_differences a b"
  by (simp add: sum_of_absolute_differences_def sum_list_sum_nth atLeast0LessThan)

lemma l1_self: "sum_list (map abs (map2 (-) a a)) = (0::real)"
  by (induction a) simp_all

text \<open>
  With \<open>n\<close> sweep angles all equal to 0 and \<open>n\<close> observed values all equal to \<open>-1\<close>, the
  noiseless simulation gives \<open>\<langle>Z\<rangle> = 1\<close> at every angle and the cost is \<open>2n\<close>.
\<close>

lemma noiseless_cost_replicate:
  "fst (obj_func noiseless_backend (replicate n 0) (get_obj_func (replicate n (- 1))) [0, 0, 0])
     = Inr (2 * real n)"
proof -
  have "simulate_sweep noiseless_backend () (replicate n 0) [] = Inr (map cos (replicate n 0))"
    by (rule simulate_sweep_pointwise)
      (simp add: noiseless_backend_def get_circuit_def dummy_measure_def)
  then show ?thesis
    by (simp add: obj_func_triple noiseless_backend_def get_obj_func_def np_subtract_def
        sum_list_replicate)
qed

subsection \<open>Expectation extraction\<close>

text \<open>
  C3. For a non-empty list of bit outcomes of one parameter setting (one row per shot,
  the measured qubit's bit in it), the extraction returns a single scalar, and it is the
  mean of \<open>(-1)\<^sup>b\<^sup>i\<^sup>t\<close> over all shots.
\<close>

theorem z_val_is_mean_over_shots:
  "bits \<noteq> [] \<Longrightarrow> z_val (map (\<lambda>bit. [bit]) bits) = Inr (mean_over_shots bits)"
  by (cases bits)
    (simp_all add: z_val_def np_mean_axis0_def np_power_neg1_def item_def comp_def
      mean_over_shots_def)

theorem z_val_is_mean_over_shots_witness:
  "[0, 1, 1, 1::nat] \<noteq> [] \<and>
   z_val (map (\<lambda>bit. [bit]) [0, 1, 1, 1]) = Inr (mean_over_shots [0, 1, 1, 1]) \<and>
   mean_over_shots [0, 1, 1, 1] = - 1 / 2"
  using z_val_is_mean_over_shots [of "[0, 1, 1, 1]"]
  by (simp add: mean_over_shots_def)

subsection \<open>The penalty\<close>

text \<open>
  C1. Whatever the observed expectation values, a candidate vector with at least one
  negative component makes the objective function return exactly 1000.
\<close>

theorem obj_func_negative_penalty:
  "d < 0 \<or> c < 0 \<or> r < 0 \<Longrightarrow> fst (obj_func B thetas clo [d, c, r]) = Inr 1000"
  by (simp add: obj_func_triple)

theorem obj_func_negative_penalty_witness:
  "((0::real) < 0 \<or> (- 1::real) < 0 \<or> (0::real) < 0) \<and>
   fst (obj_func noiseless_backend [0, 1] (get_obj_func [1, 0]) [0, - 1, 0]) = Inr 1000"
  using obj_func_negative_penalty [of 0 "- 1" 0 noiseless_backend "[0, 1]" "get_obj_func [1, 0]"]
  by simp

text \<open>
  C9, as stated, fails: 1000 is also an ordinary cost. With 500 sweep angles equal to 0
  and 500 observed values equal to \<open>-1\<close>, the vector \<open>(0, 0, 0)\<close> has no negative
  component, every simulated value is 1, and the sum of the 500 absolute differences
  is 1000.
\<close>

theorem obj_func_1000_without_negative:
  "fst (obj_func noiseless_backend (replicate 500 0) (get_obj_func (replicate 500 (- 1)))
          [0, 0, 0]) = Inr 1000 \<and>
   \<not> ((0::real) < 0 \<or> (0::real) < 0 \<or> (0::real) < 0)"
proof -
  have "fst (obj_func noiseless_backend (replicate 500 0) (get_obj_func (replicate 500 (- 1)))
          [0, 0, 0]) = Inr (2 * real 500)"
    by (rule noiseless_cost_replicate)
  moreover have "2 * real 500 = 1000"
    by simp
  ultimately show ?thesis
    by (simp only: simp_thms less_irrefl)
qed

text \<open>
  C9, amended. The penalty return, which is the constant 1000 with \<open>all_results\<close> left
  as it was, happens if and only if at least one of the three components is negative.
  No other check is made on the vector: when no component is negative, also when one
  exceeds 1, the noise model built from it goes to the simulator, and a refusal by the
  simulator is the outcome of the call.
\<close>

theorem obj_func_penalty_return_iff:
  "(obj_func B thetas clo [d, c, r] = (Inr 1000, clo)) = (d < 0 \<or> c < 0 \<or> r < 0) \<and>
   (\<not> (d < 0 \<or> c < 0 \<or> r < 0) \<longrightarrow>
      (\<forall>e. DensityMatrixSimulator B (DepolarizingWithDampedReadoutNoiseModel d c r) = Inl e
          \<longrightarrow> obj_func B thetas clo [d, c, r] = (Inl e, clo)))"
proof -
  have "clo\<lparr>all_results := all_results clo @ [results]\<rparr> \<noteq> clo" for results
  proof
    assume "clo\<lparr>all_results := all_results clo @ [results]\<rparr> = clo"
    then have "all_results (clo\<lparr>all_results := all_results clo @ [results]\<rparr>) = all_results clo"
      by simp
    then show False by simp
  qed
  then show ?thesis
    by (auto simp: obj_func_triple split: sum.splits)
qed

theorem obj_func_penalty_return_iff_witness:
  "(obj_func noiseless_backend [0] (get_obj_func [1]) [2, 0, 0] = (Inr 1000, get_obj_func [1]))
     = ((2::real) < 0 \<or> (0::real) < 0 \<or> (0::real) < 0) \<and>
   \<not> ((2::real) < 0 \<or> (0::real) < 0 \<or> (0::real) < 0) \<and>
   DensityMatrixSimulator noiseless_backend (DepolarizingWithDampedReadoutNoiseModel 2 0 0)
     = Inl ValueError \<and>
   obj_func noiseless_backend [0] (get_obj_func [1]) [2, 0, 0] = (Inl ValueError, get_obj_func [1])"
  using obj_func_penalty_return_iff [of noiseless_backend "[0]" "get_obj_func [1]" 2 0 0]
  by (simp add: noiseless_backend_def)

subsection \<open>The cost\<close>

text \<open>
  C2, as stated, fails on two counts. The sum over the sweep angles is returned only
  when there is one observed value per sweep angle: with the single sweep angle 0 and
  the observed values \<open>[3, -1]\<close>, the simulated value 1 is broadcast over both and
  the call returns \<open>|1 - 3| + |1 + 1| = 4\<close>, where the sum over the one sweep angle
  is 2. And a vector with no negative component need not be simulated at all: at
  \<open>(2, 0, 0)\<close> the simulator is refused and the call raises.
\<close>

theorem obj_func_cost_not_always_the_sum:
  "fst (obj_func noiseless_backend [0] (get_obj_func [3, - 1]) [0, 0, 0]) = Inr 4 \<and>
   sum_of_absolute_differences (map cos [0]) (data_expectations (get_obj_func [3, - 1])) = 2 \<and>
   fst (obj_func noiseless_backend [0] (get_obj_func [1]) [2, 0, 0]) = Inl ValueError"
  by (simp add: obj_func_triple noiseless_backend_def get_circuit_def dummy_measure_def
      get_obj_func_def np_subtract_def sum_of_absolute_differences_def)

text \<open>
  C2, amended. For a candidate vector with no negative component, when the simulator
  for the noise model with these three parameters is built and returns a value for the
  circuit of every sweep angle, and there is one observed value per sweep angle, the
  objective function simulates the circuit of every sweep angle once, in order, and
  returns the sum over the sweep angles of the absolute differences between the
  simulated values and the observed ones. The simulated values are what the call
  appends to \<open>all_results\<close>.
\<close>

theorem obj_func_sum_of_absolute_differences:
  assumes "0 \<le> d" and "0 \<le> c" and "0 \<le> r"
    and "DensityMatrixSimulator B (DepolarizingWithDampedReadoutNoiseModel d c r) = Inr sim"
    and "\<forall>theta\<in>set thetas. simulate_z B sim (get_circuit theta) = Inr (z theta)"
    and "length (data_expectations clo) = length thetas"
  shows "obj_func B thetas clo [d, c, r] =
           (Inr (sum_of_absolute_differences (map z thetas) (data_expectations clo)),
            clo\<lparr>all_results := all_results clo @ [map z thetas]\<rparr>)"
proof -
  have sweep: "simulate_sweep B sim thetas [] = Inr (map z thetas)"
    using assms(5) by (rule simulate_sweep_pointwise)
  have len: "length (map z thetas) = length (data_expectations clo)"
    using assms(6) by simp
  show ?thesis
    using assms(1-4) sweep np_subtract_same_length [OF len] l1_as_indexed_sum [OF len]
    by (simp add: obj_func_triple)
qed

theorem obj_func_sum_of_absolute_differences_witness:
  "(0::real) \<le> 0 \<and>
   DensityMatrixSimulator noiseless_backend (DepolarizingWithDampedReadoutNoiseModel 0 0 0)
     = Inr () \<and>
   simulate_z noiseless_backend () (get_circuit 0) = Inr (cos 0) \<and>
   simulate_z noiseless_backend () (get_circuit pi) = Inr (cos pi) \<and>
   length (data_expectations (get_obj_func [1, 0])) = length [0, pi] \<and>
   obj_func noiseless_backend [0, pi] (get_obj_func [1, 0]) [0, 0, 0] =
     (Inr 1, \<lparr>data_expectations = [1, 0], all_results = [[1, - 1]]\<rparr>)"
  using obj_func_sum_of_absolute_differences
    [of 0 0 0 noiseless_backend "()" "[0, pi]" cos "get_obj_func [1, 0]"]
  by (simp add: noiseless_backend_def get_circuit_def dummy_measure_def get_obj_func_def
      sum_of_absolute_differences_def lessThan_Suc numeral_2_eq_2)

text \<open>
  C4. For a candidate vector with no negative component, the value the objective
  function returns is not negative.
\<close>

theorem obj_func_nonnegative:
  assumes "0 \<le> d" and "0 \<le> c" and "0 \<le> r"
    and "fst (obj_func B thetas clo [d, c, r]) = Inr cost"
  shows "0 \<le> cost"
  using assms by (auto simp: obj_func_triple sum_abs_nonneg split: sum.splits)

theorem obj_func_nonnegative_witness:
  "(0::real) \<le> 0 \<and>
   fst (obj_func noiseless_backend [0, pi] (get_obj_func [1, 0]) [0, 0, 0]) = Inr 1 \<and>
   (0::real) \<le> 1"
  using obj_func_nonnegative [of 0 0 0 noiseless_backend "[0, pi]" "get_obj_func [1, 0]" 1]
  by (simp add: obj_func_triple noiseless_backend_def get_circuit_def dummy_measure_def
      get_obj_func_def np_subtract_def)

text \<open>
  C5. For a candidate vector with no negative component, if the simulated expectation
  values computed inside the objective function are the observed ones, the objective
  function returns 0.
\<close>

theorem obj_func_zero_when_identical:
  assumes "0 \<le> d" and "0 \<le> c" and "0 \<le> r"
    and "DensityMatrixSimulator B (DepolarizingWithDampedReadoutNoiseModel d c r) = Inr sim"
    and "simulate_sweep B sim thetas [] = Inr (data_expectations clo)"
  shows "fst (obj_func B thetas clo [d, c, r]) = Inr 0"
  using assms l1_self [of "data_expectations clo"]
  by (simp add: obj_func_triple np_subtract_def)

theorem obj_func_zero_when_identical_witness:
  "(0::real) \<le> 0 \<and>
   DensityMatrixSimulator noiseless_backend (DepolarizingWithDampedReadoutNoiseModel 0 0 0)
     = Inr () \<and>
   simulate_sweep noiseless_backend () [0, pi] [] = Inr (data_expectations (get_obj_func [1, - 1])) \<and>
   fst (obj_func noiseless_backend [0, pi] (get_obj_func [1, - 1]) [0, 0, 0]) = Inr 0"
  using obj_func_zero_when_identical
    [of 0 0 0 noiseless_backend "()" "[0, pi]" "get_obj_func [1, - 1]"]
  by (simp add: noiseless_backend_def get_circuit_def dummy_measure_def get_obj_func_def)

subsection \<open>The shared list of results\<close>

text \<open>
  C7, as stated, fails: \<open>all_results\<close> is created by \<open>get_obj_func\<close>, handed to its
  caller, and changed by the objective function. After one call at \<open>(0, 0, 0)\<close> with
  the single sweep angle 0, the caller's list holds the simulated values.
\<close>

theorem obj_func_appends_to_shared_list:
  "all_results (snd (obj_func noiseless_backend [0] (get_obj_func [1]) [0, 0, 0]))
     \<noteq> all_results (get_obj_func [1])"
  by (simp add: obj_func_triple noiseless_backend_def get_circuit_def dummy_measure_def
      get_obj_func_def np_subtract_def)

text \<open>
  C7, amended. A call of the objective function changes one thing that its caller
  shares and that persists across calls, the list \<open>all_results\<close>, and changes it only
  by adding at most one entry at its end: the entries of earlier calls stay, in their
  order. The observed expectation values are never changed.
\<close>

theorem obj_func_frame:
  "data_expectations (snd (obj_func B thetas clo x)) = data_expectations clo \<and>
   (\<exists>new. all_results (snd (obj_func B thetas clo x)) = all_results clo @ new \<and> length new \<le> 1)"
  by (auto simp: obj_func_def Let_def split: list.splits sum.splits)

theorem obj_func_frame_witness:
  "data_expectations (snd (obj_func noiseless_backend [0] (get_obj_func [1]) [0, 0, 0])) = [1] \<and>
   (\<exists>new. all_results (snd (obj_func noiseless_backend [0] (get_obj_func [1]) [0, 0, 0]))
            = [] @ new \<and> length new \<le> 1)"
  using obj_func_frame [of noiseless_backend "[0]" "get_obj_func [1]" "[0, 0, 0]"]
  by (simp add: get_obj_func_def)

text \<open>
  C10, as stated, fails: not every call outside the penalty branch appends. At
  \<open>(2, 0, 0)\<close> no component is negative, the simulator is refused, the call raises
  and \<open>all_results\<close> is as it was.
\<close>

theorem obj_func_raising_call_appends_nothing:
  "\<not> ((2::real) < 0 \<or> (0::real) < 0 \<or> (0::real) < 0) \<and>
   fst (obj_func noiseless_backend [0] (get_obj_func [1]) [2, 0, 0]) = Inl ValueError \<and>
   all_results (snd (obj_func noiseless_backend [0] (get_obj_func [1]) [2, 0, 0]))
     = all_results (get_obj_func [1])"
  by (simp add: obj_func_triple noiseless_backend_def)

text \<open>
  C10, amended. A call that takes the penalty branch returns with \<open>all_results\<close>, and
  the whole closure, unchanged. A call with no negative component, in which the
  simulator is built and returns a value for every sweep angle, appends exactly one
  array: the simulated values, in the order of the sweep angles, as many as there are
  sweep angles. A call with no negative component in which the simulator is refused, or
  raises at some sweep angle, raises and appends nothing.
\<close>

theorem obj_func_all_results:
  "(d < 0 \<or> c < 0 \<or> r < 0 \<longrightarrow> snd (obj_func B thetas clo [d, c, r]) = clo) \<and>
   (\<not> (d < 0 \<or> c < 0 \<or> r < 0) \<and>
    DensityMatrixSimulator B (DepolarizingWithDampedReadoutNoiseModel d c r) = Inr sim \<and>
    (\<forall>theta\<in>set thetas. simulate_z B sim (get_circuit theta) = Inr (z theta)) \<longrightarrow>
      all_results (snd (obj_func B thetas clo [d, c, r])) = all_results clo @ [map z thetas] \<and>
      length (map z thetas) = length thetas) \<and>
   (\<not> (d < 0 \<or> c < 0 \<or> r < 0) \<and>
    (DensityMatrixSimulator B (DepolarizingWithDampedReadoutNoiseModel d c r) = Inl e \<or>
     DensityMatrixSimulator B (DepolarizingWithDampedReadoutNoiseModel d c r) = Inr sim \<and>
     (\<exists>theta\<in>set thetas. simulate_z B sim (get_circuit theta) = Inl e)) \<longrightarrow>
      (\<exists>e'. fst (obj_func B thetas clo [d, c, r]) = Inl e') \<and>
      snd (obj_func B thetas clo [d, c, r]) = clo)"
proof (intro conjI impI)
  assume "d < 0 \<or> c < 0 \<or> r < 0"
  then show "snd (obj_func B thetas clo [d, c, r]) = clo"
    by (simp add: obj_func_triple)
next
  assume a: "\<not> (d < 0 \<or> c < 0 \<or> r < 0) \<and>
    DensityMatrixSimulator B (DepolarizingWithDampedReadoutNoiseModel d c r) = Inr sim \<and>
    (\<forall>theta\<in>set thetas. simulate_z B sim (get_circuit theta) = Inr (z theta))"
  then have valid: "\<not> (d < 0 \<or> c < 0 \<or> r < 0)"
    and ctor: "DensityMatrixSimulator B (DepolarizingWithDampedReadoutNoiseModel d c r) = Inr sim"
    and ok: "\<forall>theta\<in>set thetas. simulate_z B sim (get_circuit theta) = Inr (z theta)"
    by blast+
  have sweep: "simulate_sweep B sim thetas [] = Inr (map z thetas)"
    using ok by (rule simulate_sweep_pointwise)
  show "all_results (snd (obj_func B thetas clo [d, c, r])) = all_results clo @ [map z thetas]"
    using valid ctor sweep by (simp add: obj_func_triple split: sum.splits)
next
  show "length (map z thetas) = length thetas"
    by simp
next
  assume a: "\<not> (d < 0 \<or> c < 0 \<or> r < 0) \<and>
    (DensityMatrixSimulator B (DepolarizingWithDampedReadoutNoiseModel d c r) = Inl e \<or>
     DensityMatrixSimulator B (DepolarizingWithDampedReadoutNoiseModel d c r) = Inr sim \<and>
     (\<exists>theta\<in>set thetas. simulate_z B sim (get_circuit theta) = Inl e))"
  then have valid: "\<not> (d < 0 \<or> c < 0 \<or> r < 0)"
    by blast
  from a consider
      (refused) "DensityMatrixSimulator B (DepolarizingWithDampedReadoutNoiseModel d c r) = Inl e"
    | (raised) theta where
        "DensityMatrixSimulator B (DepolarizingWithDampedReadoutNoiseModel d c r) = Inr sim"
        "theta \<in> set thetas" "simulate_z B sim (get_circuit theta) = Inl e"
    by blast
  then have "(\<exists>e'. fst (obj_func B thetas clo [d, c, r]) = Inl e') \<and>
      snd (obj_func B thetas clo [d, c, r]) = clo"
  proof cases
    case refused
    with valid show ?thesis by (simp add: obj_func_triple)
  next
    case raised
    from simulate_sweep_raises [OF raised(2,3), of "[]"]
    obtain e' where "simulate_sweep B sim thetas [] = Inl e'" ..
    with valid raised(1) show ?thesis by (simp add: obj_func_triple)
  qed
  then show "\<exists>e'. fst (obj_func B thetas clo [d, c, r]) = Inl e'"
    and "snd (obj_func B thetas clo [d, c, r]) = clo"
    by simp_all
qed

theorem obj_func_all_results_witness:
  "((- 1::real) < 0 \<or> (0::real) < 0 \<or> (0::real) < 0) \<and>
   snd (obj_func noiseless_backend [0, pi] (get_obj_func [1, 0]) [- 1, 0, 0])
     = get_obj_func [1, 0] \<and>
   \<not> ((0::real) < 0 \<or> (0::real) < 0 \<or> (0::real) < 0) \<and>
   DensityMatrixSimulator noiseless_backend (DepolarizingWithDampedReadoutNoiseModel 0 0 0)
     = Inr () \<and>
   simulate_z noiseless_backend () (get_circuit 0) = Inr (cos 0) \<and>
   simulate_z noiseless_backend () (get_circuit pi) = Inr (cos pi) \<and>
   all_results (snd (obj_func noiseless_backend [0, pi] (get_obj_func [1, 0]) [0, 0, 0]))
     = all_results (get_obj_func [1, 0]) @ [[1, - 1]] \<and>
   length (map cos [0, pi]) = length [0, pi] \<and>
   \<not> ((2::real) < 0 \<or> (0::real) < 0 \<or> (0::real) < 0) \<and>
   DensityMatrixSimulator noiseless_backend (DepolarizingWithDampedReadoutNoiseModel 2 0 0)
     = Inl ValueError \<and>
   (\<exists>e'. fst (obj_func noiseless_backend [0, pi] (get_obj_func [1, 0]) [2, 0, 0]) = Inl e') \<and>
   snd (obj_func noiseless_backend [0, pi] (get_obj_func [1, 0]) [2, 0, 0]) = get_obj_func [1, 0]"
  using
    obj_func_all_results
      [of "- 1" 0 0 noiseless_backend "[0, pi]" "get_obj_func [1, 0]" "()" cos ValueError]
    obj_func_all_results
      [of 0 0 0 noiseless_backend "[0, pi]" "get_obj_func [1, 0]" "()" cos ValueError]
    obj_func_all_results
      [of 2 0 0 noiseless_backend "[0, pi]" "get_obj_func [1, 0]" "()" cos ValueError]
  by (simp add: noiseless_backend_def get_circuit_def dummy_measure_def)

end
